theory Spec2Isabelle
  imports Complex_Main "HOL-Library.Sublist" "HOL-Library.AList"
begin

section \<open>Strings and dictionaries of the source language\<close>

text \<open>
  A Python \<open>str\<close> is modelled as a HOL \<open>string\<close> holding its UTF-8 bytes; the emoji of
  the source are written out as their byte sequences. Emptiness and substring containment,
  the only string observations made below, do not depend on that encoding.
  \<open>lower\<close> maps the ASCII capitals, as \<open>str.lower\<close> does on them, and keeps every other byte:
  it agrees with \<open>str.lower\<close> on every text whose capital letters are ASCII.
\<close>

definition lower_char :: "char \<Rightarrow> char" where
  "lower_char c =
     (if 65 \<le> (of_char c :: nat) \<and> (of_char c :: nat) \<le> 90
      then char_of ((of_char c :: nat) + 32) else c)"

definition lower :: "string \<Rightarrow> string" where
  "lower s = map lower_char s"

text \<open>\<open>sep.join(xs)\<close>.\<close>

fun join :: "string \<Rightarrow> string list \<Rightarrow> string" where
  "join sep [] = []"
| "join sep [x] = x"
| "join sep (x # y # ys) = x @ sep @ join sep (y # ys)"

text \<open>\<open>k in s\<close> on strings: \<open>k\<close> occurs in \<open>s\<close> as a contiguous substring.\<close>

fun str_in :: "string \<Rightarrow> string \<Rightarrow> bool" where
  "str_in k [] = (k = [])"
| "str_in k (c # cs) = (prefix k (c # cs) \<or> str_in k cs)"

text \<open>
  Exceptions are values. \<open>KeyError\<close> is what a dictionary subscript raises on a missing key
  (the specification's \<open>UnknownPersonaError\<close>), \<open>IndexError\<close> what a list subscript raises,
  \<open>ValueError\<close> what \<open>pandas.DataFrame\<close> raises on columns of unequal length;
  \<open>Exception\<close> stands for any other exception derived from \<open>Exception\<close>, kept by its
  message. \<open>str_exn\<close> is \<open>str(e)\<close>; for a \<open>KeyError\<close> that is the \<open>repr\<close> of the key.
\<close>

datatype exn = KeyError string | IndexError string | ValueError string | Exception string

text \<open>
  \<open>repr(s)\<close> of a string: double quotes when \<open>s\<close> holds an apostrophe and no double quote,
  apostrophes otherwise; the quote and the backslash are escaped, tab, newline and carriage
  return are written \<open>\t\<close>, \<open>\n\<close>, \<open>\r\<close>, and the other ASCII control characters as
  \<open>\xhh\<close>. The bytes of a code point beyond ASCII are kept, as \<open>repr\<close> keeps the printable ones.
\<close>

definition hex_digit :: "nat \<Rightarrow> char" where
  "hex_digit n = ''0123456789abcdef'' ! n"

definition repr_quote :: "string \<Rightarrow> char" where
  "repr_quote s = (if CHR 0x27 \<in> set s \<and> CHR 0x22 \<notin> set s then CHR 0x22 else CHR 0x27)"

definition repr_char :: "char \<Rightarrow> char \<Rightarrow> string" where
  "repr_char q c =
     (if c = q \<or> c = CHR 0x5C then [CHR 0x5C, c]
      else if c = CHR 0x09 then [CHR 0x5C, CHR ''t'']
      else if c = CHR 0x0A then [CHR 0x5C, CHR ''n'']
      else if c = CHR 0x0D then [CHR 0x5C, CHR ''r'']
      else if (of_char c :: nat) < 32 \<or> (of_char c :: nat) = 127
        then [CHR 0x5C, CHR ''x'', hex_digit ((of_char c :: nat) div 16),
              hex_digit ((of_char c :: nat) mod 16)]
      else [c])"

definition repr :: "string \<Rightarrow> string" where
  "repr s = (let q = repr_quote s in [q] @ concat (map (repr_char q) s) @ [q])"

fun str_exn :: "exn \<Rightarrow> string" where
  "str_exn (KeyError k) = repr k"
| "str_exn (IndexError m) = m"
| "str_exn (ValueError m) = m"
| "str_exn (Exception m) = m"

text \<open>\<open>d[k]\<close> on a dictionary literal, kept as an association list in source order.\<close>

definition getitem :: "(string \<times> 'v) list \<Rightarrow> string \<Rightarrow> exn + 'v" where
  "getitem d k = (case map_of d k of None \<Rightarrow> Inl (KeyError k) | Some v \<Rightarrow> Inr v)"

text \<open>\<open>xs[0]\<close>.\<close>

definition first_item :: "'a list \<Rightarrow> exn + 'a" where
  "first_item xs =
     (case xs of [] \<Rightarrow> Inl (IndexError ''list index out of range'') | x # _ \<Rightarrow> Inr x)"

section \<open>Persona registry\<close>

record persona =
  name :: string
  description :: string
  priorities :: "string list"
  icon :: string

definition icon_money_bag :: string where
  "icon_money_bag = [CHR 0xF0, CHR 0x9F, CHR 0x92, CHR 0xB0]"

definition icon_bar_chart :: string where
  "icon_bar_chart = [CHR 0xF0, CHR 0x9F, CHR 0x93, CHR 0x8A]"

definition icon_yen_chart :: string where
  "icon_yen_chart = [CHR 0xF0, CHR 0x9F, CHR 0x92, CHR 0xB9]"

definition icon_motorway :: string where
  "icon_motorway = [CHR 0xF0, CHR 0x9F, CHR 0x9B, CHR 0xA3, CHR 0xEF, CHR 0xB8, CHR 0x8F]"

definition icon_target :: string where
  "icon_target = [CHR 0xF0, CHR 0x9F, CHR 0x8E, CHR 0xAF]"

definition USER_PERSONAS :: "(string \<times> persona) list" where
  "USER_PERSONAS =
    [(''sales_executive'',
      \<lparr>name = ''Sales Executive'',
       description = ''Focuses on revenue opportunities and sales strategies'',
       priorities = [''revenue growth'', ''client acquisition'', ''sales metrics''],
       icon = icon_money_bag\<rparr>),
     (''market_researcher'',
      \<lparr>name = ''Market Researcher'',
       description = ''Focuses on market trends and competitive analysis'',
       priorities = [''market share'', ''industry trends'', ''competitive landscape''],
       icon = icon_bar_chart\<rparr>),
     (''financial_analyst'',
      \<lparr>name = ''Financial Analyst'',
       description = ''Focuses on financial metrics and ROI analysis'',
       priorities = [''financial performance'', ''ROI analysis'', ''risk assessment''],
       icon = icon_yen_chart\<rparr>),
     (''strategic_planner'',
      \<lparr>name = ''Strategic Planner'',
       description = ''Focuses on long-term strategy and growth opportunities'',
       priorities = [''strategic initiatives'', ''growth opportunities'', ''market positioning''],
       icon = icon_motorway\<rparr>),
     (''product_manager'',
      \<lparr>name = ''Product Manager'',
       description = ''Focuses on product opportunities and feature analysis'',
       priorities = [''product-market fit'', ''feature analysis'', ''customer needs''],
       icon = icon_target\<rparr>)]"

text \<open>\<open>list(USER_PERSONAS.keys())\<close>, the options of the sidebar selector.\<close>

definition persona_keys :: "string list" where
  "persona_keys = map fst USER_PERSONAS"

section \<open>Messages and requests\<close>

datatype role = System | User | Assistant

record message =
  role :: role
  content :: string

text \<open>
  The keyword arguments of \<open>openai.ChatCompletion.create\<close>. The temperature is the source
  literal \<open>0.3\<close>, kept as the decimal fraction it denotes.
\<close>

record request =
  model :: string
  req_messages :: "message list"
  temperature :: rat
  max_tokens :: nat

section \<open>Content providers\<close>

text \<open>
  Keyword arguments handed to the plotting library: strings, integers, booleans, lists and
  nested dictionaries, as the source writes them.
\<close>

datatype pyval =
    PStr string
  | PInt int
  | PBool bool
  | PList "pyval list"
  | PDict "(string \<times> pyval) list"

type_synonym kwargs = "(string \<times> pyval) list"

text \<open>A trace is the name of its \<open>plotly.graph_objects\<close> constructor with its arguments.\<close>

type_synonym trace = "string \<times> kwargs"

record figure =
  traces :: "trace list"
  layout :: kwargs

definition Figure :: "trace list \<Rightarrow> figure" where
  "Figure data = \<lparr>traces = data, layout = []\<rparr>"

definition add_trace :: "trace \<Rightarrow> figure \<Rightarrow> figure" where
  "add_trace t fig = fig\<lparr>traces := traces fig @ [t]\<rparr>"

definition update_layout :: "kwargs \<Rightarrow> figure \<Rightarrow> figure" where
  "update_layout kw fig =
     fig\<lparr>layout := fold (\<lambda>(k, v). AList.update k v) kw (layout fig)\<rparr>"

definition strs :: "string list \<Rightarrow> pyval" where
  "strs xs = PList (map PStr xs)"

definition ints :: "int list \<Rightarrow> pyval" where
  "ints xs = PList (map PInt xs)"

text \<open>
  What the script reads from outside itself. \<open>api_key\<close> is the configured secret, empty when
  there is none. \<open>ChatCompletion_create\<close> is the hosted completion service followed by the
  projection \<open>response.choices[0].message.content\<close>: for a request it either raises
  (transport, authentication or malformed response) or yields the completion text.
  \<open>PLOTLY_AVAILABLE\<close> tells whether the import of the plotting library succeeded, and
  \<open>plotly_failure\<close> gives the exception, if any, that the library raises while the calls
  that build a figure run.
\<close>

record env =
  api_key :: string
  ChatCompletion_create :: "request \<Rightarrow> exn + string"
  PLOTLY_AVAILABLE :: bool
  plotly_failure :: "figure \<Rightarrow> exn option"

text \<open>The five branches of \<open>create_persona_chart\<close>, each the figure its branch builds.\<close>

definition sales_executive_figure :: figure where
  "sales_executive_figure =
     update_layout
       [(''title'', PStr (icon_money_bag @ '' Sales Funnel Performance'')),
        (''height'', PInt 400)]
       (Figure
         [(''Funnel'',
           [(''y'', strs [''Leads'', ''MQLs'', ''SQLs'', ''Opportunities'', ''Closed Won'']),
            (''x'', ints [1000, 800, 400, 200, 80]),
            (''textinfo'', PStr ''value+percent initial''),
            (''marker'',
             PDict [(''color'',
                     strs [''#1f77b4'', ''#ff7f0e'', ''#2ca02c'', ''#d62728'', ''#9467bd''])])])])"

definition market_researcher_figure :: figure where
  "market_researcher_figure =
     (let categories = [''Market Share'', ''Growth Rate'', ''Customer Sat'', ''Brand Awareness''];
          values = [25, 18, 82, 65]
      in update_layout
           [(''polar'',
             PDict [(''radialaxis'',
                     PDict [(''visible'', PBool True), (''range'', ints [0, 100])])]),
            (''title'', PStr (icon_bar_chart @ '' Market Position Analysis'')),
            (''height'', PInt 400)]
           (Figure
             [(''Scatterpolar'',
               [(''r'', ints values),
                (''theta'', strs categories),
                (''fill'', PStr ''toself''),
                (''fillcolor'', PStr ''rgba(31, 119, 180, 0.5)''),
                (''line'', PDict [(''color'', PStr ''rgb(31, 119, 180)'')])])]))"

definition financial_analyst_figure :: figure where
  "financial_analyst_figure =
     (let years = [''2022'', ''2023'', ''2024'', ''2025''];
          revenue = [500, 650, 820, 1050];
          profit = [75, 110, 160, 220]
      in update_layout
           [(''title'', PStr (icon_yen_chart @ '' Financial Performance'')),
            (''barmode'', PStr ''group''),
            (''height'', PInt 400)]
           (add_trace
              (''Bar'',
               [(''name'', PStr ''Profit ($M)''), (''x'', strs years), (''y'', ints profit),
                (''marker_color'', PStr ''#1f77b4'')])
              (add_trace
                 (''Bar'',
                  [(''name'', PStr ''Revenue ($M)''), (''x'', strs years), (''y'', ints revenue),
                   (''marker_color'', PStr ''#2ca02c'')])
                 (Figure []))))"

definition strategic_planner_figure :: figure where
  "strategic_planner_figure =
     (let phases = [''Foundation'', ''Growth'', ''Expansion'', ''Leadership''];
          resources = [1, 2, 2, 1]
      in update_layout
           [(''title'', PStr (icon_motorway @ '' Strategic Implementation Timeline'')),
            (''height'', PInt 400)]
           (Figure
             [(''Waterfall'',
               [(''name'', PStr ''Strategic Roadmap''),
                (''orientation'', PStr ''v''),
                (''measure'', strs [''relative'', ''relative'', ''relative'', ''total'']),
                (''x'', strs phases),
                (''y'', ints resources),
                (''connector'',
                 PDict [(''line'', PDict [(''color'', PStr ''rgb(63, 63, 63)'')])])])]))"

definition product_manager_figure :: figure where
  "product_manager_figure =
     (let features = [''Feature A'', ''Feature B'', ''Feature C'', ''Feature D''];
          impact = [85, 70, 60, 45];
          effort = [30, 50, 70, 40]
      in update_layout
           [(''title'', PStr (icon_target @ '' Feature Impact vs Effort Analysis'')),
            (''xaxis_title'', PStr ''Implementation Effort''),
            (''yaxis_title'', PStr ''Business Impact''),
            (''height'', PInt 400)]
           (add_trace
              (''Scatter'',
               [(''x'', ints effort),
                (''y'', ints impact),
                (''text'', strs features),
                (''mode'', PStr ''markers+text''),
                (''marker'',
                 PDict [(''size'', PInt 20), (''color'', ints impact),
                        (''colorscale'', PStr ''Viridis''), (''showscale'', PBool True)])])
              (Figure [])))"

definition persona_figure :: "string \<Rightarrow> figure" where
  "persona_figure persona_key =
     (if persona_key = ''sales_executive'' then sales_executive_figure
      else if persona_key = ''market_researcher'' then market_researcher_figure
      else if persona_key = ''financial_analyst'' then financial_analyst_figure
      else if persona_key = ''strategic_planner'' then strategic_planner_figure
      else product_manager_figure)"

text \<open>
  A table is its columns in order, each a header with its cells.
  \<open>pandas.DataFrame(data)\<close> on a dictionary of lists raises when the lists differ in
  length and otherwise keeps the columns as given.
\<close>

type_synonym dataframe = "(string \<times> string list) list"

definition DataFrame :: "(string \<times> string list) list \<Rightarrow> exn + dataframe" where
  "DataFrame data =
     (case data of
        [] \<Rightarrow> Inr data
      | col # cols \<Rightarrow>
          if list_all (\<lambda>c. length (snd c) = length (snd col)) cols then Inr data
          else Inl (ValueError ''All arrays must be of the same length''))"

definition persona_table :: "string \<Rightarrow> (string \<times> string list) list" where
  "persona_table persona_key =
     (if persona_key = ''sales_executive'' then
        [(''Metric'', [''Pipeline Value'', ''Conversion Rate'', ''Avg Deal Size'', ''Sales Cycle'']),
         (''Value'', [''$2.5M'', ''22%'', ''$125K'', ''67 days'']),
         (''Target'', [''$3.0M'', ''25%'', ''$140K'', ''60 days''])]
      else if persona_key = ''market_researcher'' then
        [(''Metric'', [''Market Size'', ''Growth Rate'', ''Market Share'', ''Competitors'']),
         (''Value'', [''$15B'', ''18%'', ''12%'', ''8 major'']),
         (''Trend'', [''Growing'', ''Accelerating'', ''Increasing'', ''Consolidating''])]
      else if persona_key = ''financial_analyst'' then
        [(''Metric'', [''Revenue'', ''Profit Margin'', ''ROI'', ''Valuation'']),
         (''Value'', [''$850M'', ''18.5%'', ''22%'', ''$4.2B'']),
         (''YoY Growth'', [''+24%'', ''+2.1%'', ''+3.5%'', ''+28%''])]
      else if persona_key = ''strategic_planner'' then
        [(''Initiative'', [''Market Expansion'', ''Product Innovation'', ''Digital Transformation'']),
         (''Timeline'', [''6-12 months'', ''12-18 months'', ''18-24 months'']),
         (''Investment'', [''$5M'', ''$8M'', ''$12M'']),
         (''ROI Potential'', [''35%'', ''42%'', ''28%''])]
      else
        [(''Feature'', [''AI Integration'', ''Mobile App'', ''API Access'', ''Analytics'']),
         (''User Impact'', [''High'', ''Medium'', ''Low'', ''High'']),
         (''Development Effort'', [''High'', ''Medium'', ''Low'', ''Medium'']),
         (''Priority'', [''P0'', ''P1'', ''P2'', ''P0''])])"

text \<open>What the script puts on the page.\<close>

datatype ui =
    St_markdown role string
  | St_plotly_chart figure
  | St_dataframe dataframe
  | St_error string

text \<open>\<open>st.session_state\<close>: the message log, the active persona key and the research data.\<close>

record session_state =
  messages :: "message list"
  current_persona :: string
  research_data :: "(string \<times> string) list"

text \<open>
  What a call can read and change besides its arguments: the session state and the page
  written so far. Every function of the script that runs while a request is handled takes
  the world it is called in and returns the world it leaves.
\<close>

record world =
  session :: session_state
  page :: "ui list"

text \<open>A call of one of \<open>st.markdown\<close>, \<open>st.plotly_chart\<close>, \<open>st.dataframe\<close>, \<open>st.error\<close>.\<close>

definition put :: "ui \<Rightarrow> world \<Rightarrow> world" where
  "put u w = w\<lparr>page := page w @ [u]\<rparr>"

text \<open>\<open>create_persona_data(persona_key)\<close>: what the call returns or raises, and the world it leaves.\<close>

definition create_persona_data :: "string \<Rightarrow> world \<Rightarrow> (exn + dataframe) \<times> world" where
  "create_persona_data persona_key w = (DataFrame (persona_table persona_key), w)"

text \<open>
  \<open>create_persona_chart(persona_key)\<close>: what the call returns or raises, and the world it
  leaves. A figure that is returned is the one its branch describes; the handler of the
  \<open>try\<close> writes the chart error to the page.
\<close>

definition create_persona_chart ::
  "env \<Rightarrow> string \<Rightarrow> world \<Rightarrow> (exn + figure option) \<times> world" where
  "create_persona_chart ev persona_key w =
     (if \<not> PLOTLY_AVAILABLE ev then (Inr None, w)
      else
        (let fig = persona_figure persona_key in
         case plotly_failure ev fig of
           None \<Rightarrow> (Inr (Some fig), w)
         | Some e \<Rightarrow> (Inr None, put (St_error (''Chart error: '' @ str_exn e)) w)))"

section \<open>Response generation\<close>

definition prompts :: "(string \<times> string) list" where
  "prompts =
    [(''sales_executive'', ''You are a sales executive. Focus on revenue opportunities, sales metrics, pipeline value, conversion rates, and actionable sales strategies. Provide specific numbers and revenue projections.''),
     (''market_researcher'', ''You are a market researcher. Focus on market size, growth rates, competitive analysis, consumer trends, and market share data. Provide comprehensive market intelligence.''),
     (''financial_analyst'', ''You are a financial analyst. Focus on financial metrics, ROI calculations, risk assessment, valuation, and investment recommendations. Provide precise financial numbers.''),
     (''strategic_planner'', ''You are a strategic planner. Focus on long-term strategy, growth opportunities, strategic initiatives, and implementation roadmaps. Provide forward-looking insights.''),
     (''product_manager'', ''You are a product manager. Focus on product opportunities, feature analysis, user needs, and product roadmap. Provide user-centric recommendations.'')]"

definition system_prompt_of :: "string \<Rightarrow> persona \<Rightarrow> string" where
  "system_prompt_of directive p =
     directive @ [CHR 0x0A, CHR 0x0A]
     @ ''Always provide specific numbers, metrics, and data-driven insights. Use the persona's focus areas: ''
     @ join '', '' (priorities p)"

definition completion_request :: "string \<Rightarrow> string \<Rightarrow> request" where
  "completion_request system_prompt user_input =
     \<lparr>model = ''mistralai/mixtral-8x7b-instruct'',
      req_messages = [\<lparr>role = System, content = system_prompt\<rparr>,
                      \<lparr>role = User, content = user_input\<rparr>],
      temperature = 3 / 10,
      max_tokens = 1000\<rparr>"

definition fallback_response :: "string \<Rightarrow> string \<Rightarrow> string" where
  "fallback_response nm topic =
     ''**'' @ nm @ '' Analysis:** As a '' @ lower nm
     @ '', I would analyze this focusing on '' @ topic
     @ ''. Based on typical industry data:'' @ [CHR 0x0A, CHR 0x0A]
     @ ''- **Key Metric:** 15-25% growth potential'' @ [CHR 0x0A]
     @ ''- **Opportunity Size:** $2-5M addressable market'' @ [CHR 0x0A]
     @ ''- **Implementation Timeline:** 6-12 months'' @ [CHR 0x0A]
     @ ''- **Success Probability:** 70-80%'' @ [CHR 0x0A, CHR 0x0A]
     @ ''*Note: Add your OpenRouter API key to secrets.toml for AI-powered analysis*''"

definition error_response :: "exn \<Rightarrow> string" where
  "error_response e =
     ''**Analysis:** I encountered an error processing your request. Error: '' @ str_exn e"

text \<open>
  \<open>generate_ai_response(user_input, persona_key)\<close>. The result pairs what the call returns
  or raises with the requests it sent to the completion service, in order. The two
  subscripts before the \<open>try\<close> raise to the caller; everything raised inside the \<open>try\<close>
  is turned into the error text.
\<close>

definition generate_ai_response ::
  "env \<Rightarrow> string \<Rightarrow> string \<Rightarrow> (exn + string) \<times> request list" where
  "generate_ai_response ev user_input persona_key =
     (case getitem USER_PERSONAS persona_key of
        Inl e \<Rightarrow> (Inl e, [])
      | Inr p \<Rightarrow>
          (case getitem prompts persona_key of
             Inl e \<Rightarrow> (Inl e, [])
           | Inr directive \<Rightarrow>
               (let system_prompt = system_prompt_of directive p in
                if api_key ev \<noteq> [] then
                  (let req = completion_request system_prompt user_input in
                   case ChatCompletion_create ev req of
                     Inl e \<Rightarrow> (Inr (error_response e), [req])
                   | Inr text \<Rightarrow> (Inr text, [req]))
                else
                  (case first_item (priorities p) of
                     Inl e \<Rightarrow> (Inr (error_response e), [])
                   | Inr topic \<Rightarrow> (Inr (fallback_response (name p) topic), [])))))"

section \<open>Conversation state\<close>

definition icon_waving_hand :: string where
  "icon_waving_hand = [CHR 0xF0, CHR 0x9F, CHR 0x91, CHR 0x8B]"

definition icon_arrows :: string where
  "icon_arrows = [CHR 0xF0, CHR 0x9F, CHR 0x94, CHR 0x84]"

definition welcome_message :: message where
  "welcome_message =
     \<lparr>role = Assistant,
      content = icon_waving_hand
        @ '' **Welcome!** I'm your multi-persona Company Research Assistant. Select your role from the sidebar to get started with customized insights!''\<rparr>"

definition initial_state :: session_state where
  "initial_state =
     \<lparr>messages = [welcome_message],
      current_persona = ''sales_executive'',
      research_data = []\<rparr>"

definition announcement :: "persona \<Rightarrow> message" where
  "announcement p =
     \<lparr>role = Assistant,
      content = icon_arrows @ '' **Switched to '' @ icon p @ '' '' @ name p @ '' Mode**''
        @ [CHR 0x0A, CHR 0x0A] @ ''*'' @ description p @ ''*'' @ [CHR 0x0A, CHR 0x0A]
        @ ''**Focus areas:** '' @ join '', '' (priorities p)\<rparr>"

text \<open>
  The persona switch of the sidebar, run with the selector's value. The result pairs the
  exception that ends the script, if any, with the session state the script leaves: the
  active key is assigned before the announcement is built.
\<close>

definition switch_persona :: "string \<Rightarrow> session_state \<Rightarrow> exn option \<times> session_state" where
  "switch_persona selected_persona s =
     (if selected_persona \<noteq> current_persona s then
        (let s1 = s\<lparr>current_persona := selected_persona\<rparr> in
         case getitem USER_PERSONAS selected_persona of
           Inl e \<Rightarrow> (Some e, s1)
         | Inr p \<Rightarrow> (None, s1\<lparr>messages := messages s1 @ [announcement p]\<rparr>))
      else (None, s))"

text \<open>A sequence of selector values, handled one after the other until one raises.\<close>

fun switch_all :: "string list \<Rightarrow> session_state \<Rightarrow> exn option \<times> session_state" where
  "switch_all [] s = (None, s)"
| "switch_all (k # ks) s =
     (case switch_persona k s of
        (Some e, s') \<Rightarrow> (Some e, s')
      | (None, s') \<Rightarrow> switch_all ks s')"

text \<open>
  The selector values that differ from the key active when they arrive, in the words of
  the specification: a switch to another key makes that key the active one, a switch to the
  active key changes nothing.
\<close>

fun differing_switches :: "string \<Rightarrow> string list \<Rightarrow> string list" where
  "differing_switches cur [] = []"
| "differing_switches cur (k # ks) =
     (if k \<noteq> cur then k # differing_switches k ks else differing_switches cur ks)"

text \<open>\<open>announces k m\<close>: \<open>m\<close> is the announcement of the registry persona with key \<open>k\<close>.\<close>

definition announces :: "string \<Rightarrow> message \<Rightarrow> bool" where
  "announces k m =
     (case getitem USER_PERSONAS k of Inl e \<Rightarrow> False | Inr p \<Rightarrow> m = announcement p)"

definition trigger_keywords :: "string list" where
  "trigger_keywords = [''analyze'', ''research'', ''data'', ''metrics'']"

text \<open>\<open>any(keyword in user_input.lower() for keyword in [...])\<close>.\<close>

definition triggers_analysis :: "string \<Rightarrow> bool" where
  "triggers_analysis user_input =
     list_ex (\<lambda>keyword. str_in keyword (lower user_input)) trigger_keywords"

text \<open>
  The chart and table shown under the assistant's reply, each asked for the persona key
  that the session state holds at that moment: the chart when plotting is available and a
  figure came back, then the table.
\<close>

definition surface_analytics :: "env \<Rightarrow> world \<Rightarrow> exn option \<times> world" where
  "surface_analytics ev w =
     (let (chart, w1) =
            (if PLOTLY_AVAILABLE ev
             then create_persona_chart ev (current_persona (session w)) w
             else (Inr None, w))
      in case chart of
           Inl e \<Rightarrow> (Some e, w1)
         | Inr fig \<Rightarrow>
             (let w2 = (case fig of None \<Rightarrow> w1 | Some f \<Rightarrow> put (St_plotly_chart f) w1)
              in case create_persona_data (current_persona (session w2)) w2 of
                   (Inl e, w3) \<Rightarrow> (Some e, w3)
                 | (Inr data_df, w3) \<Rightarrow> (None, put (St_dataframe data_df) w3)))"

text \<open>
  The chat input handler, run with the value of the chat input (\<open>None\<close> when nothing was
  submitted). The result is the exception that ends the script, if any, the session state
  the script leaves, and what the handler put on the page.
\<close>

definition submit ::
  "env \<Rightarrow> string option \<Rightarrow> session_state \<Rightarrow> exn option \<times> session_state \<times> ui list" where
  "submit ev chat_input s =
     (case chat_input of
        None \<Rightarrow> (None, s, [])
      | Some user_input \<Rightarrow>
          if user_input = [] then (None, s, [])
          else
            (let s1 = s\<lparr>messages := messages s @ [\<lparr>role = User, content = user_input\<rparr>]\<rparr>;
                 w1 = put (St_markdown User user_input) \<lparr>session = s1, page = []\<rparr>
             in case fst (generate_ai_response ev user_input (current_persona (session w1))) of
                  Inl e \<Rightarrow> (Some e, session w1, page w1)
                | Inr response \<Rightarrow>
                    (let w2 = put (St_markdown Assistant response) w1;
                         (raised, w3) =
                            (if triggers_analysis user_input
                             then surface_analytics ev w2
                             else (None, w2))
                     in case raised of
                          Some e \<Rightarrow> (Some e, session w3, page w3)
                        | None \<Rightarrow>
                            (None,
                             (session w3)\<lparr>messages := messages (session w3)
                                @ [\<lparr>role = Assistant, content = response\<rparr>]\<rparr>,
                             page w3))))"

section \<open>Sample environments\<close>

text \<open>
  An environment whose completion service answers every request alike and whose plotting
  library treats every figure alike, for evaluating the script on concrete inputs.
\<close>

definition constant_env :: "string \<Rightarrow> exn + string \<Rightarrow> bool \<Rightarrow> exn option \<Rightarrow> env" where
  "constant_env key outcome available failure =
     \<lparr>api_key = key, ChatCompletion_create = (\<lambda>req. outcome),
      PLOTLY_AVAILABLE = available, plotly_failure = (\<lambda>fig. failure)\<rparr>"

section \<open>Properties of the response generator\<close>

lemma persona_keys_eq:
  "persona_keys = [''sales_executive'', ''market_researcher'', ''financial_analyst'',
                   ''strategic_planner'', ''product_manager'']"
  by (simp add: persona_keys_def USER_PERSONAS_def)

lemma getitem_personas_unknown:
  "k \<notin> set persona_keys \<Longrightarrow> getitem USER_PERSONAS k = Inl (KeyError k)"
  by (simp add: getitem_def persona_keys_def map_of_eq_None_iff split: option.splits)

lemma persona_keys_disj:
  "k \<in> set persona_keys \<Longrightarrow>
     k = ''sales_executive'' \<or> k = ''market_researcher'' \<or> k = ''financial_analyst''
     \<or> k = ''strategic_planner'' \<or> k = ''product_manager''"
  unfolding persona_keys_eq by (simp only: list.set insert_iff empty_iff simp_thms)

lemma getitem_personas_known:
  assumes "k \<in> set persona_keys"
  shows "\<exists>p topic rest. getitem USER_PERSONAS k = Inr p \<and> priorities p = topic # rest"
  using persona_keys_disj [OF assms]
  by (elim disjE) (simp_all add: getitem_def USER_PERSONAS_def)

lemma getitem_prompts_known:
  assumes "k \<in> set persona_keys"
  shows "\<exists>d. getitem prompts k = Inr d"
  using persona_keys_disj [OF assms]
  by (elim disjE) (simp_all add: getitem_def prompts_def)

lemma error_response_nonempty: "error_response e \<noteq> []"
  by (simp add: error_response_def)

lemma fallback_response_nonempty: "fallback_response n t \<noteq> []"
  by (simp add: fallback_response_def)

lemma str_in_sublist: "str_in k s \<longleftrightarrow> sublist k s"
  by (induction s) (simp_all add: sublist_Cons_right)

lemma str_in_middle: "str_in k (a @ k @ b)"
  by (simp add: str_in_sublist)

lemma sales_executive_key: "''sales_executive'' \<in> set persona_keys"
  by (simp add: persona_keys_eq)

lemma market_researcher_key: "''market_researcher'' \<in> set persona_keys"
  by (simp add: persona_keys_eq)

text \<open>
  Claim C1, as stated, asks for a non-empty string on every call. With a credential
  configured and a service that answers with the empty completion, the call returns the
  empty string.
\<close>

theorem generate_ai_response_empty_completion:
  "''sales_executive'' \<in> set persona_keys \<and>
   fst (generate_ai_response (constant_env ''sk'' (Inr []) True None)
          ''hello'' ''sales_executive'') = Inr []"
  by (simp add: generate_ai_response_def constant_env_def getitem_def USER_PERSONAS_def
        prompts_def persona_keys_eq)

text \<open>
  Claim C1, amended. For every input text and every registry key the call raises nothing
  and returns a string. When it sent no request (no credential is configured) the string is
  not empty; when the request it sent raised, the string is the error text for that
  exception, which is not empty; when the request was answered, the string is the
  completion text as the service gave it.
\<close>

theorem generate_ai_response_returns_text:
  assumes "k \<in> set persona_keys"
  shows "\<exists>r. fst (generate_ai_response ev user_input k) = Inr r \<and>
     (case snd (generate_ai_response ev user_input k) of
        [] \<Rightarrow> api_key ev = [] \<and> r \<noteq> []
      | req # _ \<Rightarrow>
          api_key ev \<noteq> [] \<and>
          (case ChatCompletion_create ev req of
             Inl e \<Rightarrow> r = error_response e \<and> r \<noteq> []
           | Inr text \<Rightarrow> r = text))"
proof -
  obtain p topic rest where p: "getitem USER_PERSONAS k = Inr p" "priorities p = topic # rest"
    using getitem_personas_known [OF assms] by blast
  obtain d where d: "getitem prompts k = Inr d"
    using getitem_prompts_known [OF assms] by blast
  show ?thesis
    by (simp add: generate_ai_response_def p d first_item_def Let_def
          error_response_nonempty fallback_response_nonempty split: sum.splits)
qed

theorem generate_ai_response_returns_text_witness:
  "''sales_executive'' \<in> set persona_keys \<and>
   (\<exists>r. fst (generate_ai_response (constant_env ''sk'' (Inl (Exception ''timed out'')) True None)
              ''hello'' ''sales_executive'') = Inr r \<and> r \<noteq> [])"
proof -
  let ?ev = "constant_env ''sk'' (Inl (Exception ''timed out'')) True None"
  have sent: "snd (generate_ai_response ?ev ''hello'' ''sales_executive'') \<noteq> []"
    by (simp add: generate_ai_response_def constant_env_def getitem_def USER_PERSONAS_def
          prompts_def)
  have raises: "ChatCompletion_create ?ev req = Inl (Exception ''timed out'')" for req
    by (simp add: constant_env_def)
  from generate_ai_response_returns_text [OF sales_executive_key, of ?ev "''hello''"]
  obtain r where r: "fst (generate_ai_response ?ev ''hello'' ''sales_executive'') = Inr r"
    and shape: "(case snd (generate_ai_response ?ev ''hello'' ''sales_executive'') of
        [] \<Rightarrow> api_key ?ev = [] \<and> r \<noteq> []
      | req # _ \<Rightarrow>
          api_key ?ev \<noteq> [] \<and>
          (case ChatCompletion_create ?ev req of
             Inl e \<Rightarrow> r = error_response e \<and> r \<noteq> []
           | Inr text \<Rightarrow> r = text))"
    by blast
  from sent shape have "r \<noteq> []"
    by (cases "snd (generate_ai_response ?ev ''hello'' ''sales_executive'')")
       (simp_all add: raises error_response_nonempty)
  with r sales_executive_key show ?thesis by blast
qed

text \<open>
  Claim C2. With no credential configured and a registry key, the call sends no request
  and returns the templated fallback text: the fixed template filled with the persona's
  display name, that name in lower case and the persona's first priority topic, whatever
  the submitted text and the rest of the environment. The display name and the first
  priority topic both occur in the text.
\<close>

theorem generate_ai_response_no_credential:
  assumes "k \<in> set persona_keys" and "api_key ev = []"
  shows "\<exists>p topic rest reply.
     getitem USER_PERSONAS k = Inr p \<and> priorities p = topic # rest \<and>
     reply = ''**'' @ name p @ '' Analysis:** As a '' @ lower (name p)
         @ '', I would analyze this focusing on '' @ topic
         @ ''. Based on typical industry data:'' @ [CHR 0x0A, CHR 0x0A]
         @ ''- **Key Metric:** 15-25% growth potential'' @ [CHR 0x0A]
         @ ''- **Opportunity Size:** $2-5M addressable market'' @ [CHR 0x0A]
         @ ''- **Implementation Timeline:** 6-12 months'' @ [CHR 0x0A]
         @ ''- **Success Probability:** 70-80%'' @ [CHR 0x0A, CHR 0x0A]
         @ ''*Note: Add your OpenRouter API key to secrets.toml for AI-powered analysis*'' \<and>
     generate_ai_response ev user_input k = (Inr reply, []) \<and>
     str_in (name p) reply \<and> str_in topic reply"
proof -
  obtain p topic rest where p: "getitem USER_PERSONAS k = Inr p" "priorities p = topic # rest"
    using getitem_personas_known [OF assms(1)] by blast
  obtain d where d: "getitem prompts k = Inr d"
    using getitem_prompts_known [OF assms(1)] by blast
  define reply where "reply = fallback_response (name p) topic"
  have shape: "reply = ''**'' @ name p @ '' Analysis:** As a '' @ lower (name p)
         @ '', I would analyze this focusing on '' @ topic
         @ ''. Based on typical industry data:'' @ [CHR 0x0A, CHR 0x0A]
         @ ''- **Key Metric:** 15-25% growth potential'' @ [CHR 0x0A]
         @ ''- **Opportunity Size:** $2-5M addressable market'' @ [CHR 0x0A]
         @ ''- **Implementation Timeline:** 6-12 months'' @ [CHR 0x0A]
         @ ''- **Success Probability:** 70-80%'' @ [CHR 0x0A, CHR 0x0A]
         @ ''*Note: Add your OpenRouter API key to secrets.toml for AI-powered analysis*''"
    by (simp add: reply_def fallback_response_def)
  have "reply = ''**'' @ name p
         @ ('' Analysis:** As a '' @ lower (name p)
            @ '', I would analyze this focusing on '' @ topic
            @ ''. Based on typical industry data:'' @ [CHR 0x0A, CHR 0x0A]
         @ ''- **Key Metric:** 15-25% growth potential'' @ [CHR 0x0A]
         @ ''- **Opportunity Size:** $2-5M addressable market'' @ [CHR 0x0A]
         @ ''- **Implementation Timeline:** 6-12 months'' @ [CHR 0x0A]
         @ ''- **Success Probability:** 70-80%'' @ [CHR 0x0A, CHR 0x0A]
         @ ''*Note: Add your OpenRouter API key to secrets.toml for AI-powered analysis*'')"
    by (simp add: shape)
  then have has_name: "str_in (name p) reply"
    by (simp only: str_in_middle)
  have "reply = (''**'' @ name p @ '' Analysis:** As a '' @ lower (name p)
            @ '', I would analyze this focusing on '') @ topic
         @ (''. Based on typical industry data:'' @ [CHR 0x0A, CHR 0x0A]
         @ ''- **Key Metric:** 15-25% growth potential'' @ [CHR 0x0A]
         @ ''- **Opportunity Size:** $2-5M addressable market'' @ [CHR 0x0A]
         @ ''- **Implementation Timeline:** 6-12 months'' @ [CHR 0x0A]
         @ ''- **Success Probability:** 70-80%'' @ [CHR 0x0A, CHR 0x0A]
         @ ''*Note: Add your OpenRouter API key to secrets.toml for AI-powered analysis*'')"
    by (simp add: shape)
  then have has_topic: "str_in topic reply"
    by (simp only: str_in_middle)
  have run: "generate_ai_response ev user_input k = (Inr reply, [])"
    using assms(2) by (simp add: generate_ai_response_def p d first_item_def Let_def reply_def)
  from p shape run has_name has_topic show ?thesis
    by blast
qed

theorem generate_ai_response_no_credential_witness:
  "''market_researcher'' \<in> set persona_keys \<and>
   api_key (constant_env [] (Inr ''unused'') True None) = [] \<and>
   generate_ai_response (constant_env [] (Inr ''unused'') True None) ''hello'' ''market_researcher''
     = (Inr (''**'' @ ''Market Researcher'' @ '' Analysis:** As a '' @ ''market researcher''
         @ '', I would analyze this focusing on '' @ ''market share''
         @ ''. Based on typical industry data:'' @ [CHR 0x0A, CHR 0x0A]
         @ ''- **Key Metric:** 15-25% growth potential'' @ [CHR 0x0A]
         @ ''- **Opportunity Size:** $2-5M addressable market'' @ [CHR 0x0A]
         @ ''- **Implementation Timeline:** 6-12 months'' @ [CHR 0x0A]
         @ ''- **Success Probability:** 70-80%'' @ [CHR 0x0A, CHR 0x0A]
         @ ''*Note: Add your OpenRouter API key to secrets.toml for AI-powered analysis*''), [])"
proof -
  let ?ev = "constant_env [] (Inr ''unused'') True None"
  have key: "api_key ?ev = []"
    by (simp add: constant_env_def)
  have p: "getitem USER_PERSONAS ''market_researcher'' = Inr
      \<lparr>name = ''Market Researcher'',
       description = ''Focuses on market trends and competitive analysis'',
       priorities = [''market share'', ''industry trends'', ''competitive landscape''],
       icon = icon_bar_chart\<rparr>"
    by (simp add: getitem_def USER_PERSONAS_def)
  have low: "lower ''Market Researcher'' = ''market researcher''"
    by code_simp
  from generate_ai_response_no_credential [OF market_researcher_key key, of "''hello''"]
  have "generate_ai_response ?ev ''hello'' ''market_researcher''
     = (Inr (''**'' @ ''Market Researcher'' @ '' Analysis:** As a '' @ ''market researcher''
         @ '', I would analyze this focusing on '' @ ''market share''
         @ ''. Based on typical industry data:'' @ [CHR 0x0A, CHR 0x0A]
         @ ''- **Key Metric:** 15-25% growth potential'' @ [CHR 0x0A]
         @ ''- **Opportunity Size:** $2-5M addressable market'' @ [CHR 0x0A]
         @ ''- **Implementation Timeline:** 6-12 months'' @ [CHR 0x0A]
         @ ''- **Success Probability:** 70-80%'' @ [CHR 0x0A, CHR 0x0A]
         @ ''*Note: Add your OpenRouter API key to secrets.toml for AI-powered analysis*''), [])"
    by (simp add: p low)
  with market_researcher_key key show ?thesis
    by (intro conjI)
qed

text \<open>
  Claim C5. For a persona key outside the registry, \<open>generate_ai_response\<close> raises the
  registry's lookup error for that key to its caller: the result is the raised error, not a
  returned string, and no request has been sent.
\<close>

theorem generate_ai_response_unknown_persona:
  "k \<notin> set persona_keys \<Longrightarrow>
     generate_ai_response ev user_input k = (Inl (KeyError k), [])"
  by (simp add: generate_ai_response_def getitem_personas_unknown)

theorem generate_ai_response_unknown_persona_witness:
  "''intern'' \<notin> set persona_keys \<and>
   generate_ai_response (constant_env ''sk'' (Inr ''ok'') True None)
       ''analyze'' ''intern'' = (Inl (KeyError ''intern''), [])"
proof -
  have h: "''intern'' \<notin> set persona_keys"
    by (simp add: persona_keys_eq)
  show ?thesis
    using h generate_ai_response_unknown_persona [OF h] by simp
qed

text \<open>
  Claim C6. With a credential configured and a registry key, the call sends exactly one
  request: the fixed model identifier, two messages, the fixed temperature and the fixed
  cap on output tokens. The system message is the persona's role directive followed by the
  fixed sentence that lists the persona's priority topics; the user message is the
  submitted text and nothing else.
\<close>

theorem generate_ai_response_single_request:
  assumes "k \<in> set persona_keys" and "api_key ev \<noteq> []"
  shows "\<exists>p directive. getitem USER_PERSONAS k = Inr p \<and> getitem prompts k = Inr directive \<and>
     snd (generate_ai_response ev user_input k) =
       [\<lparr>model = ''mistralai/mixtral-8x7b-instruct'',
         req_messages =
           [\<lparr>role = System,
             content = directive @ [CHR 0x0A, CHR 0x0A]
               @ ''Always provide specific numbers, metrics, and data-driven insights. Use the persona's focus areas: ''
               @ join '', '' (priorities p)\<rparr>,
            \<lparr>role = User, content = user_input\<rparr>],
         temperature = 3 / 10,
         max_tokens = 1000\<rparr>]"
proof -
  obtain p topic rest where p: "getitem USER_PERSONAS k = Inr p" "priorities p = topic # rest"
    using getitem_personas_known [OF assms(1)] by blast
  obtain d where d: "getitem prompts k = Inr d"
    using getitem_prompts_known [OF assms(1)] by blast
  show ?thesis
    using assms(2)
    by (simp add: generate_ai_response_def p d Let_def completion_request_def
          system_prompt_of_def split: sum.splits)
qed

theorem generate_ai_response_single_request_witness:
  "''sales_executive'' \<in> set persona_keys \<and>
   api_key (constant_env ''sk'' (Inr ''ok'') True None) \<noteq> [] \<and>
   length (snd (generate_ai_response (constant_env ''sk'' (Inr ''ok'') True None)
                  ''hello'' ''sales_executive'')) = 1"
proof -
  let ?ev = "constant_env ''sk'' (Inr ''ok'') True None"
  have key: "api_key ?ev \<noteq> []"
    by (simp add: constant_env_def)
  from generate_ai_response_single_request [OF sales_executive_key key, of "''hello''"]
  have "length (snd (generate_ai_response ?ev ''hello'' ''sales_executive'')) = 1"
    by auto
  with sales_executive_key key show ?thesis by blast
qed

section \<open>Properties of the content providers\<close>

lemma create_persona_data_returns: "create_persona_data k w = (Inr (persona_table k), w)"
  by (simp add: create_persona_data_def DataFrame_def persona_table_def)

lemma create_persona_chart_eq:
  "create_persona_chart ev k w =
     (if PLOTLY_AVAILABLE ev then
        (case plotly_failure ev (persona_figure k) of
           None \<Rightarrow> (Inr (Some (persona_figure k)), w)
         | Some e \<Rightarrow> (Inr None, put (St_error (''Chart error: '' @ str_exn e)) w))
      else (Inr None, w))"
  by (simp add: create_persona_chart_def Let_def)

lemma unknown_key_neq:
  assumes "k \<notin> set persona_keys"
  shows "k \<noteq> ''sales_executive''" "k \<noteq> ''market_researcher''" "k \<noteq> ''financial_analyst''"
    "k \<noteq> ''strategic_planner''" "k \<noteq> ''product_manager''"
  using assms unfolding persona_keys_eq
  by (simp_all only: list.set insert_iff empty_iff simp_thms de_Morgan_disj not_False_eq_True)

text \<open>
  Claim C7. For every persona key, in every world, \<open>create_persona_chart\<close> returns and
  raises nothing. It returns no chart when the plotting library is unavailable, and it
  returns no chart when building the figure raises; otherwise it returns the figure of the
  key's branch.
\<close>

theorem create_persona_chart_never_raises:
  "\<exists>r. fst (create_persona_chart ev k w) = Inr r \<and>
     (\<not> PLOTLY_AVAILABLE ev \<longrightarrow> r = None) \<and>
     (\<forall>e. plotly_failure ev (persona_figure k) = Some e \<longrightarrow> r = None) \<and>
     (PLOTLY_AVAILABLE ev \<and> plotly_failure ev (persona_figure k) = None
        \<longrightarrow> r = Some (persona_figure k))"
  by (simp add: create_persona_chart_eq split: option.splits)

theorem create_persona_chart_never_raises_witness:
  "fst (create_persona_chart (constant_env [] (Inr []) True (Some (Exception ''boom'')))
          ''sales_executive'' \<lparr>session = initial_state, page = []\<rparr>) = Inr None"
proof -
  let ?ev = "constant_env [] (Inr []) True (Some (Exception ''boom''))"
  have f: "plotly_failure ?ev (persona_figure ''sales_executive'') = Some (Exception ''boom'')"
    by (simp add: constant_env_def)
  from create_persona_chart_never_raises
         [of ?ev "''sales_executive''" "\<lparr>session = initial_state, page = []\<rparr>"] f
  show ?thesis
    by auto
qed

text \<open>
  Claim C8, as stated, calls both functions pure. When building the figure raises,
  \<open>create_persona_chart\<close> writes to the page: called on an empty page it leaves the chart
  error there.
\<close>

theorem create_persona_chart_writes_error:
  "page (snd (create_persona_chart (constant_env [] (Inr []) True (Some (Exception ''boom'')))
                ''sales_executive'' \<lparr>session = initial_state, page = []\<rparr>))
     = [St_error ''Chart error: boom'']"
  by (simp add: create_persona_chart_def constant_env_def put_def)

text \<open>
  Claim C8, amended. \<open>create_persona_data\<close> is pure: in every world it returns the fixed
  table of the key's branch and leaves the world as it found it. \<open>create_persona_chart\<close>
  returns no chart or the fixed figure of the key's branch; what it returns is the same in
  any two worlds, so it does not depend on the session state or the page, and a second call
  with the same key, made in the world the first call left, returns what the first
  returned. It leaves the session state as it found it, and it adds to the page nothing but
  the chart error, and that only when building the figure raises.
\<close>

theorem content_providers_deterministic:
  "create_persona_data k w = (Inr (persona_table k), w) \<and>
   fst (create_persona_data k w') = fst (create_persona_data k w) \<and>
   fst (create_persona_chart ev k w') = fst (create_persona_chart ev k w) \<and>
   fst (create_persona_chart ev k (snd (create_persona_chart ev k w)))
     = fst (create_persona_chart ev k w) \<and>
   fst (create_persona_chart ev k w) \<in> {Inr None, Inr (Some (persona_figure k))} \<and>
   session (snd (create_persona_chart ev k w)) = session w \<and>
   page (snd (create_persona_chart ev k w)) =
     page w @ (if PLOTLY_AVAILABLE ev then
                 (case plotly_failure ev (persona_figure k) of
                    None \<Rightarrow> []
                  | Some e \<Rightarrow> [St_error (''Chart error: '' @ str_exn e)])
               else [])"
  by (simp add: create_persona_chart_eq create_persona_data_returns put_def
        split: option.splits)

theorem content_providers_deterministic_witness:
  "create_persona_data ''financial_analyst'' \<lparr>session = initial_state, page = []\<rparr>
     = (Inr [(''Metric'', [''Revenue'', ''Profit Margin'', ''ROI'', ''Valuation'']),
             (''Value'', [''$850M'', ''18.5%'', ''22%'', ''$4.2B'']),
             (''YoY Growth'', [''+24%'', ''+2.1%'', ''+3.5%'', ''+28%''])],
        \<lparr>session = initial_state, page = []\<rparr>) \<and>
   session (snd (create_persona_chart (constant_env [] (Inr []) True (Some (Exception ''boom'')))
                   ''financial_analyst'' \<lparr>session = initial_state, page = []\<rparr>))
     = initial_state"
proof -
  let ?ev = "constant_env [] (Inr []) True (Some (Exception ''boom''))"
  let ?w = "\<lparr>session = initial_state, page = []\<rparr>"
  have t: "persona_table ''financial_analyst'' =
      [(''Metric'', [''Revenue'', ''Profit Margin'', ''ROI'', ''Valuation'']),
       (''Value'', [''$850M'', ''18.5%'', ''22%'', ''$4.2B'']),
       (''YoY Growth'', [''+24%'', ''+2.1%'', ''+3.5%'', ''+28%''])]"
    by (simp add: persona_table_def)
  from content_providers_deterministic [of "''financial_analyst''" ?w ?w ?ev]
  show ?thesis
    by (simp add: t)
qed

text \<open>
  Claim C10. For a key outside the registry, in every world, \<open>create_persona_data\<close>
  returns the product manager's table and raises nothing, and \<open>create_persona_chart\<close> does
  what it does for the product manager's key: with the plotting library available and the
  figure built without failure, it returns the product manager's figure.
\<close>

theorem content_providers_unknown_key:
  assumes "k \<notin> set persona_keys"
  shows "fst (create_persona_data k w) =
       Inr [(''Feature'', [''AI Integration'', ''Mobile App'', ''API Access'', ''Analytics'']),
            (''User Impact'', [''High'', ''Medium'', ''Low'', ''High'']),
            (''Development Effort'', [''High'', ''Medium'', ''Low'', ''Medium'']),
            (''Priority'', [''P0'', ''P1'', ''P2'', ''P0''])] \<and>
     create_persona_data k w = create_persona_data ''product_manager'' w \<and>
     create_persona_chart ev k w = create_persona_chart ev ''product_manager'' w \<and>
     (PLOTLY_AVAILABLE ev \<and> plotly_failure ev product_manager_figure = None \<longrightarrow>
        fst (create_persona_chart ev k w) = Inr (Some product_manager_figure))"
proof -
  note neq = unknown_key_neq [OF assms]
  have table: "persona_table k = persona_table ''product_manager''"
    by (simp add: persona_table_def neq)
  have fig: "persona_figure k = product_manager_figure"
    by (simp add: persona_figure_def neq)
  have fig_pm: "persona_figure ''product_manager'' = product_manager_figure"
    by (simp add: persona_figure_def)
  have "fst (create_persona_data k w) =
       Inr [(''Feature'', [''AI Integration'', ''Mobile App'', ''API Access'', ''Analytics'']),
            (''User Impact'', [''High'', ''Medium'', ''Low'', ''High'']),
            (''Development Effort'', [''High'', ''Medium'', ''Low'', ''Medium'']),
            (''Priority'', [''P0'', ''P1'', ''P2'', ''P0''])]"
    by (simp add: create_persona_data_def DataFrame_def persona_table_def neq)
  moreover have "create_persona_data k w = create_persona_data ''product_manager'' w"
    by (simp add: create_persona_data_def table)
  moreover have "create_persona_chart ev k w = create_persona_chart ev ''product_manager'' w"
    unfolding create_persona_chart_def fig fig_pm by (rule refl)
  moreover have "PLOTLY_AVAILABLE ev \<and> plotly_failure ev product_manager_figure = None \<longrightarrow>
        fst (create_persona_chart ev k w) = Inr (Some product_manager_figure)"
    by (simp add: create_persona_chart_eq fig)
  ultimately show ?thesis by blast
qed

theorem content_providers_unknown_key_witness:
  "''intern'' \<notin> set persona_keys \<and>
   create_persona_data ''intern'' \<lparr>session = initial_state, page = []\<rparr>
     = create_persona_data ''product_manager'' \<lparr>session = initial_state, page = []\<rparr> \<and>
   fst (create_persona_chart (constant_env [] (Inr []) True None) ''intern''
          \<lparr>session = initial_state, page = []\<rparr>)
     = Inr (Some product_manager_figure)"
proof -
  let ?ev = "constant_env [] (Inr []) True None"
  have h: "''intern'' \<notin> set persona_keys"
    by (simp add: persona_keys_eq)
  have a: "PLOTLY_AVAILABLE ?ev \<and> plotly_failure ?ev product_manager_figure = None"
    by (simp add: constant_env_def)
  from content_providers_unknown_key
         [OF h, of "\<lparr>session = initial_state, page = []\<rparr>" ?ev] a h
  show ?thesis
    by blast
qed

section \<open>Properties of the conversation state\<close>

lemma initial_persona_key: "current_persona initial_state \<in> set persona_keys"
  by (simp add: initial_state_def persona_keys_eq)

lemma surface_analytics_eq:
  "surface_analytics ev w =
     (None,
      w\<lparr>page := page w
          @ (if PLOTLY_AVAILABLE ev then
               (case plotly_failure ev (persona_figure (current_persona (session w))) of
                  None \<Rightarrow> [St_plotly_chart (persona_figure (current_persona (session w)))]
                | Some e \<Rightarrow> [St_error (''Chart error: '' @ str_exn e)])
             else [])
          @ [St_dataframe (persona_table (current_persona (session w)))]\<rparr>)"
  by (simp add: surface_analytics_def create_persona_chart_eq create_persona_data_returns
        put_def split: option.splits)

lemma generate_ai_response_known:
  assumes "k \<in> set persona_keys"
  shows "\<exists>r. fst (generate_ai_response ev user_input k) = Inr r"
proof -
  obtain p topic rest where p: "getitem USER_PERSONAS k = Inr p" "priorities p = topic # rest"
    using getitem_personas_known [OF assms] by blast
  obtain d where d: "getitem prompts k = Inr d"
    using getitem_prompts_known [OF assms] by blast
  show ?thesis
    by (simp add: generate_ai_response_def p d first_item_def Let_def split: sum.splits)
qed

lemma triggers_analysis_sublist:
  "triggers_analysis user_input \<longleftrightarrow>
     (\<exists>keyword \<in> set [''analyze'', ''research'', ''data'', ''metrics''].
        sublist keyword (lower user_input))"
  by (simp only: triggers_analysis_def trigger_keywords_def list_ex_iff str_in_sublist)

lemma submit_eq:
  assumes "user_input \<noteq> []"
    and "fst (generate_ai_response ev user_input (current_persona s)) = Inr response"
  shows "submit ev (Some user_input) s =
     (None,
      s\<lparr>messages := messages s @ [\<lparr>role = User, content = user_input\<rparr>,
                                   \<lparr>role = Assistant, content = response\<rparr>]\<rparr>,
      [St_markdown User user_input, St_markdown Assistant response]
      @ (if triggers_analysis user_input
         then (if PLOTLY_AVAILABLE ev then
                 (case plotly_failure ev (persona_figure (current_persona s)) of
                    None \<Rightarrow> [St_plotly_chart (persona_figure (current_persona s))]
                  | Some e \<Rightarrow> [St_error (''Chart error: '' @ str_exn e)])
               else [])
              @ [St_dataframe (persona_table (current_persona s))]
         else []))"
  using assms
  by (simp add: submit_def Let_def surface_analytics_eq put_def split: option.splits)

text \<open>
  Claim C3. In a state whose active key is a registry key, submitting a non-empty text
  ends without an exception and leaves the session state changed in the message log alone:
  the old log followed by the user message with the submitted text and then the assistant
  message with what \<open>generate_ai_response\<close> returned for that text and the active key. The
  log is longer by two.
\<close>

theorem submit_appends_user_then_assistant:
  assumes "user_input \<noteq> []" and "current_persona s \<in> set persona_keys"
  shows "\<exists>response shown.
     fst (generate_ai_response ev user_input (current_persona s)) = Inr response \<and>
     submit ev (Some user_input) s =
       (None,
        s\<lparr>messages := messages s @ [\<lparr>role = User, content = user_input\<rparr>,
                                     \<lparr>role = Assistant, content = response\<rparr>]\<rparr>,
        shown) \<and>
     length (messages (fst (snd (submit ev (Some user_input) s)))) = length (messages s) + 2"
proof -
  obtain response
    where r: "fst (generate_ai_response ev user_input (current_persona s)) = Inr response"
    using generate_ai_response_known [OF assms(2)] by blast
  show ?thesis
    using r by (simp add: submit_eq [OF assms(1) r])
qed

theorem submit_appends_user_then_assistant_witness:
  "''analyze the market'' \<noteq> [] \<and> current_persona initial_state \<in> set persona_keys \<and>
   length (messages (fst (snd (submit (constant_env [] (Inr []) False None)
             (Some ''analyze the market'') initial_state)))) = 3"
proof -
  have ne: "''analyze the market'' \<noteq> []" by simp
  from submit_appends_user_then_assistant
         [OF ne initial_persona_key, of "constant_env [] (Inr []) False None"]
  have "length (messages (fst (snd (submit (constant_env [] (Inr []) False None)
             (Some ''analyze the market'') initial_state)))) = length (messages initial_state) + 2"
    by blast
  then show ?thesis
    using initial_persona_key by (simp add: initial_state_def)
qed

text \<open>
  Claim C9. In a state whose active key is a registry key, submitting a non-empty text
  shows the user's text and the assistant's reply, and after them the analytics exactly when
  the lowercased text contains one of \<open>analyze\<close>, \<open>research\<close>, \<open>data\<close>, \<open>metrics\<close> as a
  substring: the chart when plotting is available and a figure was built (the chart error
  when building it raised), then the active persona's table. The session state left behind
  is the same with and without a keyword: the old log, the user message, the assistant
  message.
\<close>

theorem submit_surfaces_analytics_on_keyword:
  assumes "user_input \<noteq> []" and "current_persona s \<in> set persona_keys"
  shows "\<exists>response.
     fst (generate_ai_response ev user_input (current_persona s)) = Inr response \<and>
     submit ev (Some user_input) s =
       (None,
        s\<lparr>messages := messages s @ [\<lparr>role = User, content = user_input\<rparr>,
                                     \<lparr>role = Assistant, content = response\<rparr>]\<rparr>,
        [St_markdown User user_input, St_markdown Assistant response]
        @ (if \<exists>keyword \<in> set [''analyze'', ''research'', ''data'', ''metrics''].
                 sublist keyword (lower user_input)
           then (if PLOTLY_AVAILABLE ev then
                   (case plotly_failure ev (persona_figure (current_persona s)) of
                      None \<Rightarrow> [St_plotly_chart (persona_figure (current_persona s))]
                    | Some e \<Rightarrow> [St_error (''Chart error: '' @ str_exn e)])
                 else [])
                @ [St_dataframe (persona_table (current_persona s))]
           else []))"
proof -
  obtain response
    where r: "fst (generate_ai_response ev user_input (current_persona s)) = Inr response"
    using generate_ai_response_known [OF assms(2)] by blast
  have "submit ev (Some user_input) s =
       (None,
        s\<lparr>messages := messages s @ [\<lparr>role = User, content = user_input\<rparr>,
                                     \<lparr>role = Assistant, content = response\<rparr>]\<rparr>,
        [St_markdown User user_input, St_markdown Assistant response]
        @ (if \<exists>keyword \<in> set [''analyze'', ''research'', ''data'', ''metrics''].
                 sublist keyword (lower user_input)
           then (if PLOTLY_AVAILABLE ev then
                   (case plotly_failure ev (persona_figure (current_persona s)) of
                      None \<Rightarrow> [St_plotly_chart (persona_figure (current_persona s))]
                    | Some e \<Rightarrow> [St_error (''Chart error: '' @ str_exn e)])
                 else [])
                @ [St_dataframe (persona_table (current_persona s))]
           else []))"
    unfolding submit_eq [OF assms(1) r] triggers_analysis_sublist
    by (rule refl)
  with r show ?thesis by blast
qed

lemma show_data_triggers:
  "\<exists>keyword \<in> set [''analyze'', ''research'', ''data'', ''metrics''].
      sublist keyword (lower ''Show DATA'')"
proof -
  have "lower ''Show DATA'' = ''show data''"
    by code_simp
  moreover have "sublist ''data'' ''show data''"
    using sublist_append_leftI [of "''data''" "''show ''"] by simp
  ultimately show ?thesis by simp
qed

theorem submit_surfaces_analytics_on_keyword_witness:
  "''Show DATA'' \<noteq> [] \<and> current_persona initial_state \<in> set persona_keys \<and>
   (\<exists>response. submit (constant_env [] (Inr []) False None) (Some ''Show DATA'') initial_state =
      (None,
       initial_state\<lparr>messages := messages initial_state
          @ [\<lparr>role = User, content = ''Show DATA''\<rparr>,
             \<lparr>role = Assistant, content = response\<rparr>]\<rparr>,
       [St_markdown User ''Show DATA'', St_markdown Assistant response,
        St_dataframe (persona_table ''sales_executive'')]))"
proof -
  let ?ev = "constant_env [] (Inr []) False None"
  have ne: "''Show DATA'' \<noteq> []" by simp
  have off: "\<not> PLOTLY_AVAILABLE ?ev" by (simp add: constant_env_def)
  have cur: "current_persona initial_state = ''sales_executive''"
    by (simp add: initial_state_def)
  from submit_surfaces_analytics_on_keyword [OF ne initial_persona_key, of ?ev]
  have "\<exists>response. submit ?ev (Some ''Show DATA'') initial_state =
      (None,
       initial_state\<lparr>messages := messages initial_state
          @ [\<lparr>role = User, content = ''Show DATA''\<rparr>,
             \<lparr>role = Assistant, content = response\<rparr>]\<rparr>,
       [St_markdown User ''Show DATA'', St_markdown Assistant response,
        St_dataframe (persona_table ''sales_executive'')])"
    by (simp only: show_data_triggers off if_True if_False cur append.simps) blast
  with ne initial_persona_key show ?thesis
    by (intro conjI)
qed

lemma switch_persona_same: "switch_persona (current_persona s) s = (None, s)"
  by (simp add: switch_persona_def)

lemma switch_persona_other:
  assumes "k \<in> set persona_keys" and "k \<noteq> current_persona s"
  shows "\<exists>p. getitem USER_PERSONAS k = Inr p \<and>
     switch_persona k s =
       (None, s\<lparr>current_persona := k, messages := messages s @ [announcement p]\<rparr>)"
proof -
  obtain p where p: "getitem USER_PERSONAS k = Inr p"
    using getitem_personas_known [OF assms(1)] by blast
  show ?thesis
    using assms(2) by (simp add: switch_persona_def p Let_def)
qed

lemma announces_role: "announces k m \<Longrightarrow> role m = Assistant"
  by (auto simp: announces_def announcement_def split: sum.splits)

lemma switch_all_run:
  assumes "set ks \<subseteq> set persona_keys"
  shows "\<exists>s' appended. switch_all ks s = (None, s') \<and>
     messages s' = messages s @ appended \<and>
     list_all2 announces (differing_switches (current_persona s) ks) appended \<and>
     current_persona s' = last (current_persona s # ks) \<and>
     research_data s' = research_data s"
  using assms
proof (induction ks arbitrary: s)
  case Nil
  show ?case by simp
next
  case (Cons k ks)
  from Cons.prems have k: "k \<in> set persona_keys" and ks: "set ks \<subseteq> set persona_keys"
    by simp_all
  show ?case
  proof (cases "k = current_persona s")
    case True
    from Cons.IH [OF ks, of s] True show ?thesis
      by (simp add: switch_persona_same)
  next
    case False
    obtain p where p: "getitem USER_PERSONAS k = Inr p"
      and step: "switch_persona k s =
        (None, s\<lparr>current_persona := k, messages := messages s @ [announcement p]\<rparr>)"
      using switch_persona_other [OF k False] by blast
    let ?t = "s\<lparr>current_persona := k, messages := messages s @ [announcement p]\<rparr>"
    obtain s' appended where run: "switch_all ks ?t = (None, s')"
      and log: "messages s' = messages ?t @ appended"
      and ann: "list_all2 announces (differing_switches (current_persona ?t) ks) appended"
      and cur: "current_persona s' = last (current_persona ?t # ks)"
      and rd: "research_data s' = research_data ?t"
      using Cons.IH [OF ks, of ?t] by blast
    have "announces k (announcement p)"
      using p by (simp add: announces_def)
    with ann have "list_all2 announces (differing_switches (current_persona s) (k # ks))
        (announcement p # appended)"
      using False by simp
    moreover have "messages s' = messages s @ (announcement p # appended)"
      using log by simp
    moreover have "switch_all (k # ks) s = (None, s')"
      using step run by simp
    moreover have "current_persona s' = last (current_persona s # k # ks)"
      using cur by simp
    moreover have "research_data s' = research_data s"
      using rd by simp
    ultimately show ?thesis by blast
  qed
qed

lemma last_in_keys:
  "set ks \<subseteq> A \<Longrightarrow> c \<in> A \<Longrightarrow> last (c # ks) \<in> A"
  by (induction ks arbitrary: c) auto

text \<open>
  Claim C4. A switch to the active key leaves the state as it is and raises nothing. A
  switch to another registry key makes that key the active one and appends one message, the
  assistant's announcement of that persona. Hence, from a state whose active key is a
  registry key, any sequence of switches to registry keys runs to its end, and the messages
  it appends to the log are the announcements, in order, of exactly the switches whose key
  differed from the key active when they arrived: as many announcements as such switches,
  all from the assistant, the old log kept as a prefix, the active key still a registry key
  and the research data untouched.
\<close>

theorem switch_persona_announcements:
  assumes "set ks \<subseteq> set persona_keys" and "current_persona s \<in> set persona_keys"
  shows "switch_persona (current_persona t) t = (None, t) \<and>
     (k \<in> set persona_keys \<and> k \<noteq> current_persona t \<longrightarrow>
        (\<exists>p. getitem USER_PERSONAS k = Inr p \<and>
           switch_persona k t =
             (None, t\<lparr>current_persona := k, messages := messages t @ [announcement p]\<rparr>))) \<and>
     (\<exists>s' appended. switch_all ks s = (None, s') \<and>
        messages s' = messages s @ appended \<and>
        list_all2 announces (differing_switches (current_persona s) ks) appended \<and>
        (\<forall>m \<in> set appended. role m = Assistant) \<and>
        length (messages s') =
          length (messages s) + length (differing_switches (current_persona s) ks) \<and>
        prefix (messages s) (messages s') \<and>
        current_persona s' \<in> set persona_keys \<and>
        research_data s' = research_data s)"
proof -
  obtain s' appended where run: "switch_all ks s = (None, s')"
    and log: "messages s' = messages s @ appended"
    and ann: "list_all2 announces (differing_switches (current_persona s) ks) appended"
    and cur: "current_persona s' = last (current_persona s # ks)"
    and rd: "research_data s' = research_data s"
    using switch_all_run [OF assms(1), of s] by blast
  have roles: "\<forall>m \<in> set appended. role m = Assistant"
    using ann by (induction rule: list_all2_induct) (auto simp: announces_role)
  have len: "length (messages s') =
      length (messages s) + length (differing_switches (current_persona s) ks)"
    using log list_all2_lengthD [OF ann] by simp
  have pre: "prefix (messages s) (messages s')"
    using log by simp
  have key: "current_persona s' \<in> set persona_keys"
    unfolding cur using assms by (rule last_in_keys)
  have multi: "\<exists>s' appended. switch_all ks s = (None, s') \<and>
        messages s' = messages s @ appended \<and>
        list_all2 announces (differing_switches (current_persona s) ks) appended \<and>
        (\<forall>m \<in> set appended. role m = Assistant) \<and>
        length (messages s') =
          length (messages s) + length (differing_switches (current_persona s) ks) \<and>
        prefix (messages s) (messages s') \<and>
        current_persona s' \<in> set persona_keys \<and>
        research_data s' = research_data s"
    using run log ann roles len pre key rd by blast
  show ?thesis
    using switch_persona_same [of t] switch_persona_other [of k t] multi by blast
qed

lemma switch_keys: "set [''market_researcher'', ''market_researcher'', ''sales_executive'']
    \<subseteq> set persona_keys"
  by (simp add: persona_keys_eq)

theorem switch_persona_announcements_witness:
  "set [''market_researcher'', ''market_researcher'', ''sales_executive''] \<subseteq> set persona_keys \<and>
   current_persona initial_state \<in> set persona_keys \<and>
   (\<exists>s'. switch_all [''market_researcher'', ''market_researcher'', ''sales_executive'']
            initial_state = (None, s') \<and>
         length (messages s') = 3)"
proof -
  let ?ks = "[''market_researcher'', ''market_researcher'', ''sales_executive'']"
  have d: "length (differing_switches (current_persona initial_state) ?ks) = 2"
    by (simp add: initial_state_def)
  have l: "length (messages initial_state) = 1"
    by (simp add: initial_state_def)
  from switch_persona_announcements
         [OF switch_keys initial_persona_key, of initial_state "''product_manager''"]
  obtain s' where run: "switch_all ?ks initial_state = (None, s')"
    and len: "length (messages s') = length (messages initial_state)
           + length (differing_switches (current_persona initial_state) ?ks)"
    by blast
  have "length (messages s') = 1 + 2"
    using len by (simp only: d l)
  then have "length (messages s') = 3"
    by simp
  with run have "\<exists>s'. switch_all ?ks initial_state = (None, s') \<and> length (messages s') = 3"
    by (intro exI conjI)
  with switch_keys initial_persona_key show ?thesis
    by (intro conjI)
qed

end
